theory Spec2Isabelle
  imports Complex_Main "HOL-Library.Sublist"
begin

section \<open>Data model\<close>

text \<open>
  The back end keeps its rows in a relational store reached through an ORM. A database
  table is modelled as the list of its rows in storage order; \<open>findAll\<close> is a filter
  that keeps this order, \<open>findByPk\<close> the first row with the key, an instance
  \<open>update\<close> rewrites the row with that key and stores the values it is given.
  Dates are milliseconds since the epoch (\<open>int\<close>), DATEONLY cells are day numbers,
  TIME cells are minutes since midnight, DECIMAL cells and JavaScript numbers are exact
  rationals, nullable columns are options, ENUM columns are datatypes. Strings are lists
  of code units below 256.
\<close>

text \<open>
  A JavaScript number is a rational or NaN. The two DECIMAL cells of a session that the
  billing routes write from a computed value, discount and total, hold such a number.
\<close>

datatype number = Number rat | NaN

datatype table_status = T_available | T_occupied | T_reserved | T_maintenance
datatype plug_state = Plug_online | Plug_offline
datatype session_status = S_active | S_paused | S_completed | S_cancelled
datatype payment_state = Unpaid | Paid | Refunded
datatype order_status = O_pending | O_confirmed | O_preparing | O_ready | O_served | O_cancelled
datatype item_status = I_pending | I_preparing | I_ready | I_served
datatype reservation_status = R_confirmed | R_arrived | R_cancelled | R_completed | R_no_show

text \<open>models/Table.js\<close>

record table_row =
  t_id :: nat
  t_table_number :: string
  t_type :: string
  t_status :: table_status
  t_hourly_rate :: rat
  t_plug_id :: "string option"
  t_plug_status :: plug_state
  t_current_session_id :: "nat option"
  t_session_start_time :: "int option"
  t_session_end_time :: "int option"
  t_customer_name :: "string option"
  t_customer_phone :: "string option"
  t_is_active :: bool

text \<open>The Session model (sequelize.define('Session', ...)).\<close>

record session_row =
  s_id :: nat
  s_session_id :: string
  s_table_id :: nat
  s_table_number :: string
  s_customer_name :: string
  s_customer_phone :: string
  s_start_time :: int
  s_end_time :: "int option"
  s_duration :: int
  s_hourly_rate :: rat
  s_session_cost :: rat
  s_total_order_cost :: rat
  s_subtotal :: rat
  s_tax :: rat
  s_service_fee :: rat
  s_discount :: number
  s_total :: number
  s_payment_status :: payment_state
  s_payment_method :: "string option"
  s_status :: session_status
  s_created_by :: nat

text \<open>models/Order.js\<close>

record order_row =
  o_id :: nat
  o_order_id :: string
  o_table_id :: nat
  o_table_number :: string
  o_customer_name :: string
  o_customer_phone :: string
  o_service_type :: string
  o_order_type :: string
  o_status :: order_status
  o_subtotal :: rat
  o_tax :: rat
  o_discount :: rat
  o_total :: rat
  o_payment_status :: payment_state
  o_created_by :: nat
  o_special_instructions :: "string option"
  o_created_at :: int

record order_item_row =
  i_id :: nat
  i_order_id :: nat
  i_menu_item_id :: nat
  i_name :: string
  i_price :: rat
  i_quantity :: int
  i_special_instructions :: "string option"
  i_status :: item_status

record menu_item_row =
  m_id :: nat
  m_name :: string
  m_price :: rat
  m_is_available :: bool

text \<open>The Reservation model (second half of models/Table.js).\<close>

record reservation_row =
  r_id :: nat
  r_reservation_id :: string
  r_customer_name :: string
  r_customer_phone :: string
  r_customer_email :: "string option"
  r_table_id :: "nat option"
  r_table_type :: string
  r_reservation_date :: int
  r_reservation_time :: nat
  r_duration :: int
  r_party_size :: int
  r_special_requests :: "string option"
  r_status :: reservation_status
  r_sms_notification :: bool
  r_email_notification :: bool
  r_created_by :: "nat option"

text \<open>The permission bundle literal of routes/auth.js; \<open>None\<close> stands for the empty object.\<close>

record tablesManagement =
  tm_view :: bool
  tm_manage :: bool
  tm_status :: bool

record orderProcessing =
  op_create :: bool
  op_modify :: bool
  op_cancel :: bool

record billingAccess =
  ba_generate :: bool
  ba_payments :: bool
  ba_reports :: bool

record kotManagement =
  km_print :: bool
  km_modify :: bool
  km_status :: bool

record voidOrders =
  vo_items :: bool
  vo_fullOrder :: bool
  vo_afterPayment :: bool

record discounts =
  dc_item :: bool
  dc_bill :: bool
  dc_offers :: bool
  dc_maxDiscount :: rat

record specialPermissions =
  voidOrders :: voidOrders
  discounts :: discounts

record reportAccess =
  ra_daily :: bool
  ra_table :: bool
  ra_item :: bool

record permissions =
  tablesManagement :: tablesManagement
  orderProcessing :: orderProcessing
  billingAccess :: billingAccess
  kotManagement :: kotManagement
  specialPermissions :: specialPermissions
  reportAccess :: reportAccess
  canAddItems :: bool
  canChangePrices :: bool
  canManageStaff :: bool

record user_row =
  u_id :: nat
  u_name :: string
  u_username :: string
  u_email :: string
  u_password :: string
  u_phone :: string
  u_role :: string
  u_permissions :: "permissions option"

record db =
  users :: "user_row list"
  tables :: "table_row list"
  menu_items :: "menu_item_row list"
  orders :: "order_row list"
  order_items :: "order_item_row list"
  sessions :: "session_row list"
  reservations :: "reservation_row list"

subsection \<open>ORM operations\<close>

definition findByPk :: "('a \<Rightarrow> nat) \<Rightarrow> 'a list \<Rightarrow> nat \<Rightarrow> 'a option" where
  "findByPk pk rows k = find (\<lambda>r. pk r = k) rows"

definition update_row :: "('a \<Rightarrow> nat) \<Rightarrow> nat \<Rightarrow> ('a \<Rightarrow> 'a) \<Rightarrow> 'a list \<Rightarrow> 'a list" where
  "update_row pk k f rows = map (\<lambda>r. if pk r = k then f r else r) rows"

text \<open>The autoIncrement primary key of a new row: a key larger than every key in use.\<close>

definition next_id :: "('a \<Rightarrow> nat) \<Rightarrow> 'a list \<Rightarrow> nat" where
  "next_id pk rows = Suc (foldr max (map pk rows) 0)"

subsection \<open>Responses\<close>

datatype message =
    Validation_failed
  | Server_error
  | Server_error_during_registration
  | Session_not_found
  | Session_is_not_active
  | Session_ended_successfully
  | Session_started_successfully
  | Session_already_paid
  | Table_not_found
  | Table_is_not_available
  | Insufficient_permissions_to_apply_discount
  | Maximum_discount_allowed_is rat
  | Discount_applied_successfully
  | Payment_processed_successfully
  | Order_item_not_found
  | Item_marked_as_complete
  | Menu_item_is_not_available "string + nat"
  | Order_created_successfully
  | No_tables_available_for_the_selected_type
  | No_tables_available_at_the_requested_time
  | Reservation_created_successfully
  | User_with_this_email_or_username_already_exists
  | User_registered_successfully

datatype 'a response = Response (status_code: nat) (message: message) (payload: "'a option")

subsection \<open>JavaScript values\<close>


text \<open>Truthiness of a nullable string: null and the empty string are falsy.\<close>

definition truthy :: "string option \<Rightarrow> bool" where
  "truthy s = (case s of None \<Rightarrow> False | Some v \<Rightarrow> v \<noteq> [])"

text \<open>
  The whitespace that the validators' \<open>trim()\<close> sanitizer strips from both ends: the
  JavaScript whitespace class, of which TAB, LF, VT, FF, CR, space and U+00A0 lie below 256.
\<close>

definition is_space :: "char \<Rightarrow> bool" where
  "is_space c =
     (c \<in> set [CHR '' '', CHR 0x09, CHR 0x0A, CHR 0x0B, CHR 0x0C, CHR 0x0D, CHR 0xA0])"

definition trim :: "string \<Rightarrow> string" where
  "trim s = rev (dropWhile is_space (rev (dropWhile is_space s)))"








text \<open>
  The identifier \<open>Op\<close> as a route module sees it. routes/reports.js binds it to
  Sequelize's operator table (\<open>const { Op } = require('sequelize')\<close>); routes/sessions.js
  and the billing routes use \<open>[Op.gte]\<close> and \<open>[Op.lte]\<close> in their queries but
  declare no such identifier, so evaluating the query object raises a ReferenceError there.
  The handlers below take the binding as their first argument; the handler of the file as
  it stands is the instance at the file's own binding.
\<close>

datatype op_table = Sequelize_Op
datatype js_error = ReferenceError | TypeError | SequelizeValidationError | SequelizeError

definition reports_js_Op :: "op_table option" where
  "reports_js_Op = Some Sequelize_Op"

definition sessions_js_Op :: "op_table option" where
  "sessions_js_Op = None"

definition billing_js_Op :: "op_table option" where
  "billing_js_Op = None"

text \<open>
  The where-clause
  \<open>{ table_id: tid, created_at: { [Op.gte]: lo, [Op.lte]: hi } }\<close> over orders.
\<close>

definition window_where :: "op_table option \<Rightarrow> nat \<Rightarrow> int \<Rightarrow> int \<Rightarrow> js_error + (order_row \<Rightarrow> bool)" where
  "window_where Op tid lo hi =
     (case Op of
        None \<Rightarrow> Inl ReferenceError
      | Some _ \<Rightarrow> Inr (\<lambda>order. o_table_id order = tid \<and> lo \<le> o_created_at order \<and> o_created_at order \<le> hi))"

section \<open>Session lifecycle (routes/sessions.js)\<close>

record start_request =
  sr_table_id :: nat
  sr_customer_name :: string
  sr_customer_phone :: string

definition start_valid :: "start_request \<Rightarrow> bool" where
  "start_valid req = (trim (sr_customer_name req) \<noteq> [] \<and> trim (sr_customer_phone req) \<noteq> [])"

text \<open>
  \<open>Session.create\<close>. Sequelize validates the built instance before it runs the
  \<open>beforeCreate\<close> hooks. The model declares \<open>session_id\<close> with
  \<open>allowNull: false\<close> and no default, and assigns the generated identifier
  (\<open>SES-\<close>, the date and four random digits: the argument \<open>generated\<close>) only in
  \<open>beforeCreate\<close>; a create call that passes no \<open>session_id\<close> therefore fails
  validation and nothing is inserted. With a \<open>session_id\<close> the row holds the given
  fields and the column defaults.
\<close>

definition Session_create :: "string \<Rightarrow> nat \<Rightarrow> int \<Rightarrow> string option \<Rightarrow> nat \<Rightarrow> string \<Rightarrow> string \<Rightarrow> string \<Rightarrow> rat \<Rightarrow> nat \<Rightarrow> js_error + session_row" where
  "Session_create generated new_id now session_id table_id table_number customer_name
       customer_phone hourly_rate created_by =
     (case session_id of
        None \<Rightarrow> Inl SequelizeValidationError
      | Some given \<Rightarrow>
          Inr \<lparr> s_id = new_id, s_session_id = (if given = [] then generated else given),
                s_table_id = table_id, s_table_number = table_number,
                s_customer_name = customer_name, s_customer_phone = customer_phone,
                s_start_time = now, s_end_time = None, s_duration = 0,
                s_hourly_rate = hourly_rate, s_session_cost = 0, s_total_order_cost = 0,
                s_subtotal = 0, s_tax = 0, s_service_fee = 0, s_discount = Number 0,
                s_total = Number 0, s_payment_status = Unpaid, s_payment_method = None,
                s_status = S_active, s_created_by = created_by \<rparr>)"

text \<open>
  The start handler. Its create call passes table_id, table_number, customer_name,
  customer_phone, hourly_rate and created_by, and no session_id.
\<close>

definition start_session :: "string \<Rightarrow> int \<Rightarrow> user_row \<Rightarrow> start_request \<Rightarrow> db \<Rightarrow> session_row response \<times> db" where
  "start_session generated now user req d =
     (if \<not> start_valid req then (Response 400 Validation_failed None, d)
      else
        let table_id = sr_table_id req;
            customer_name = trim (sr_customer_name req);
            customer_phone = trim (sr_customer_phone req)
        in case findByPk t_id (tables d) table_id of
             None \<Rightarrow> (Response 404 Table_not_found None, d)
           | Some table \<Rightarrow>
               if t_status table \<noteq> T_available then (Response 400 Table_is_not_available None, d)
               else
                 (case Session_create generated (next_id s_id (sessions d)) now None table_id
                         (t_table_number table) customer_name customer_phone
                         (t_hourly_rate table) (u_id user) of
                    Inl e \<Rightarrow> (Response 500 Server_error None, d)
                  | Inr session \<Rightarrow>
                      let d1 = d\<lparr>sessions := sessions d @ [session]\<rparr>;
                          d2 = d1\<lparr>tables := update_row t_id table_id
                                 (\<lambda>t. t\<lparr>t_status := T_occupied,
                                         t_current_session_id := Some (s_id session),
                                         t_session_start_time := Some (s_start_time session),
                                         t_customer_name := Some customer_name,
                                         t_customer_phone := Some customer_phone\<rparr>) (tables d1)\<rparr>;
                          d3 = (if truthy (t_plug_id table)
                                then d2\<lparr>tables := update_row t_id table_id
                                       (\<lambda>t. t\<lparr>t_plug_status := Plug_online\<rparr>) (tables d2)\<rparr>
                                else d2)
                      in (Response 201 Session_started_successfully
                            (findByPk s_id (sessions d3) (s_id session)), d3)))"

text \<open>The figures that the end handler computes from the session, the clock and the orders found.\<close>

definition session_duration :: "session_row \<Rightarrow> int \<Rightarrow> int" where
  "session_duration session endTime = \<lceil>(of_int (endTime - s_start_time session) :: rat) / (1000 * 60)\<rceil>"

definition session_cost :: "session_row \<Rightarrow> int \<Rightarrow> rat" where
  "session_cost session endTime = (of_int (session_duration session endTime) / 60) * s_hourly_rate session"

definition total_order_cost :: "order_row list \<Rightarrow> rat" where
  "total_order_cost found = foldl (\<lambda>sum order. sum + o_total order) 0 found"

definition table_reset :: "int \<Rightarrow> table_row \<Rightarrow> table_row" where
  "table_reset endTime t =
     t\<lparr>t_status := T_available, t_current_session_id := None, t_session_start_time := None,
       t_session_end_time := Some endTime, t_customer_name := None, t_customer_phone := None,
       t_plug_status := Plug_offline\<rparr>"

definition session_end_update :: "int \<Rightarrow> int \<Rightarrow> rat \<Rightarrow> rat \<Rightarrow> rat \<Rightarrow> rat \<Rightarrow> rat \<Rightarrow> rat \<Rightarrow> session_row \<Rightarrow> session_row" where
  "session_end_update endTime duration sessionCost totalOrderCost subtotal tax serviceFee total' s =
     s\<lparr>s_end_time := Some endTime, s_duration := duration, s_session_cost := sessionCost,
       s_total_order_cost := totalOrderCost, s_subtotal := subtotal, s_tax := tax,
       s_service_fee := serviceFee, s_total := Number total', s_status := S_completed\<rparr>"

definition end_session_in :: "op_table option \<Rightarrow> int \<Rightarrow> nat \<Rightarrow> db \<Rightarrow> session_row response \<times> db" where
  "end_session_in Op now sid d =
     (case findByPk s_id (sessions d) sid of
        None \<Rightarrow> (Response 404 Session_not_found None, d)
      | Some session \<Rightarrow>
          if s_status session \<noteq> S_active then (Response 400 Session_is_not_active None, d)
          else
            let endTime = now;
                duration = session_duration session endTime;
                sessionCost = session_cost session endTime
            in (case window_where Op (s_table_id session) (s_start_time session) endTime of
                 Inl e \<Rightarrow> (Response 500 Server_error None, d)
               | Inr w \<Rightarrow>
                   let found = filter w (orders d);
                       totalOrderCost = total_order_cost found;
                       subtotal = sessionCost + totalOrderCost;
                       tax = subtotal * 0.085;
                       serviceFee = subtotal * 0.05;
                       total' = subtotal + tax + serviceFee;
                       upd = session_end_update endTime duration sessionCost totalOrderCost
                               subtotal tax serviceFee total';
                       d1 = d\<lparr>sessions := update_row s_id sid upd (sessions d)\<rparr>
                   in (case findByPk t_id (tables d) (s_table_id session) of
                        None \<Rightarrow> (Response 500 Server_error None, d1)
                      | Some table \<Rightarrow>
                          (Response 200 Session_ended_successfully (Some (upd session)),
                           d1\<lparr>tables := update_row t_id (t_id table) (table_reset endTime) (tables d1)\<rparr>))))"

text \<open>The handler as routes/sessions.js has it.\<close>

definition end_session :: "int \<Rightarrow> nat \<Rightarrow> db \<Rightarrow> session_row response \<times> db" where
  "end_session = end_session_in sessions_js_Op"

section \<open>Billing (the routes mounted at /api/billing)\<close>








record payment_request =
  pr_payment_method :: string
  pr_amount_paid :: rat

definition payment_valid :: "payment_request \<Rightarrow> bool" where
  "payment_valid req =
     (pr_payment_method req \<in> set [''cash'', ''card'', ''upi'', ''online''] \<and> 0 \<le> pr_amount_paid req)"

text \<open>
  The block under \<open>if (session.status === 'active')\<close> of the payment handler. It
  stores end_time, duration, session_cost and the status, and resets the table; a
  session loaded without its table makes \<open>session.table.update\<close> a TypeError.
\<close>

definition payment_end_update :: "int \<Rightarrow> int \<Rightarrow> rat \<Rightarrow> session_row \<Rightarrow> session_row" where
  "payment_end_update endTime duration sessionCost s =
     s\<lparr>s_end_time := Some endTime, s_duration := duration, s_session_cost := sessionCost,
       s_status := S_completed\<rparr>"

definition payment_end :: "int \<Rightarrow> nat \<Rightarrow> session_row \<Rightarrow> table_row option \<Rightarrow> db \<Rightarrow> (js_error + session_row) \<times> db" where
  "payment_end now sid session table d =
     (let endTime = now;
          duration = session_duration session endTime;
          sessionCost = session_cost session endTime;
          upd = payment_end_update endTime duration sessionCost;
          d1 = d\<lparr>sessions := update_row s_id sid upd (sessions d)\<rparr>
      in case table of
           None \<Rightarrow> (Inl TypeError, d1)
         | Some t \<Rightarrow> (Inr (upd session),
                      d1\<lparr>tables := update_row t_id (t_id t) (table_reset endTime) (tables d1)\<rparr>))"

definition process_payment_in :: "op_table option \<Rightarrow> int \<Rightarrow> nat \<Rightarrow> payment_request \<Rightarrow> db \<Rightarrow> session_row response \<times> db" where
  "process_payment_in Op now sid req d =
     (if \<not> payment_valid req then (Response 400 Validation_failed None, d)
      else
        (case findByPk s_id (sessions d) sid of
           None \<Rightarrow> (Response 404 Session_not_found None, d)
         | Some session0 \<Rightarrow>
             if s_payment_status session0 = Paid then (Response 400 Session_already_paid None, d)
             else
               let table = findByPk t_id (tables d) (s_table_id session0);
                   paid = (\<lambda>s. s\<lparr>s_payment_status := Paid,
                                  s_payment_method := Some (pr_payment_method req)\<rparr>);
                   session = paid session0;
                   d1 = d\<lparr>sessions := update_row s_id sid paid (sessions d)\<rparr>;
                   (ended, d2) = (if s_status session = S_active
                                  then payment_end now sid session table d1
                                  else (Inr session, d1))
               in (case ended of
                     Inl e \<Rightarrow> (Response 500 Server_error None, d2)
                   | Inr session' \<Rightarrow>
                       (case window_where Op (s_table_id session') (s_start_time session')
                               (case s_end_time session' of None \<Rightarrow> now | Some e \<Rightarrow> e) of
                          Inl e \<Rightarrow> (Response 500 Server_error None, d2)
                        | Inr w \<Rightarrow>
                            (Response 200 Payment_processed_successfully (Some session'),
                             d2\<lparr>orders := map (\<lambda>order. if w order
                                                         then order\<lparr>o_payment_status := Paid\<rparr>
                                                         else order) (orders d2)\<rparr>)))))"

text \<open>The handler as the billing route file has it.\<close>

definition process_payment :: "int \<Rightarrow> nat \<Rightarrow> payment_request \<Rightarrow> db \<Rightarrow> session_row response \<times> db" where
  "process_payment = process_payment_in billing_js_Op"

section \<open>Kitchen order tickets (routes/kot.js)\<close>

definition complete_item :: "nat \<Rightarrow> db \<Rightarrow> order_item_row response \<times> db" where
  "complete_item itemId d =
     (case findByPk i_id (order_items d) itemId of
        None \<Rightarrow> (Response 404 Order_item_not_found None, d)
      | Some orderItem \<Rightarrow>
          let upd = (\<lambda>i. i\<lparr>i_status := I_ready\<rparr>);
              d1 = d\<lparr>order_items := update_row i_id itemId upd (order_items d)\<rparr>;
              allItems = filter (\<lambda>i. i_order_id i = i_order_id orderItem) (order_items d1);
              allReady = list_all (\<lambda>i. i_status i = I_ready) allItems;
              d2 = (if allReady
                    then d1\<lparr>orders := update_row o_id (i_order_id orderItem)
                                        (\<lambda>order. order\<lparr>o_status := O_ready\<rparr>) (orders d1)\<rparr>
                    else d1)
          in (Response 200 Item_marked_as_complete (Some (upd orderItem)), d2))"

section \<open>Order pipeline (the create-order route)\<close>

record order_line =
  ol_menu_item_id :: nat
  ol_quantity :: int
  ol_special_instructions :: "string option"

record order_request =
  or_table_id :: nat
  or_customer_name :: string
  or_customer_phone :: string
  or_service_type :: "string option"
  or_order_type :: string
  or_items :: "order_line list"
  or_special_instructions :: "string option"

definition order_valid :: "order_request \<Rightarrow> bool" where
  "order_valid req =
     (trim (or_customer_name req) \<noteq> [] \<and> trim (or_customer_phone req) \<noteq> [] \<and>
      or_order_type req \<in> set [''food'', ''drinks'', ''games'', ''mixed''] \<and>
      1 \<le> length (or_items req) \<and>
      list_all (\<lambda>item. 1 \<le> ol_quantity item) (or_items req))"

text \<open>An entry of the local array \<open>orderItems\<close>.\<close>

record pending_item =
  pi_menu_item_id :: nat
  pi_name :: string
  pi_price :: rat
  pi_quantity :: int
  pi_special_instructions :: "string option"

text \<open>
  The first loop of the handler, \<open>for (const item of items)\<close>, with the running
  \<open>subtotal\<close> and \<open>orderItems\<close>; the early \<open>return res.status(400)\<close> is the
  left injection.
\<close>

fun price_lines :: "menu_item_row list \<Rightarrow> order_line list \<Rightarrow> rat \<Rightarrow> pending_item list \<Rightarrow> message + rat \<times> pending_item list" where
  "price_lines menu [] subtotal orderItems = Inr (subtotal, orderItems)"
| "price_lines menu (item # rest) subtotal orderItems =
     (case findByPk m_id menu (ol_menu_item_id item) of
        None \<Rightarrow> Inl (Menu_item_is_not_available (Inr (ol_menu_item_id item)))
      | Some menuItem \<Rightarrow>
          if \<not> m_is_available menuItem
          then Inl (Menu_item_is_not_available (Inl (m_name menuItem)))
          else
            let itemTotal = m_price menuItem * of_int (ol_quantity item)
            in price_lines menu rest (subtotal + itemTotal)
                 (orderItems @ [\<lparr>pi_menu_item_id = m_id menuItem, pi_name = m_name menuItem,
                                  pi_price = m_price menuItem, pi_quantity = ol_quantity item,
                                  pi_special_instructions = ol_special_instructions item\<rparr>]))"

text \<open>
  For the statements about the first loop: the rejecting condition
  \<open>!menuItem || !menuItem.is_available\<close> of a requested line, and the line's
  \<open>itemTotal\<close>.
\<close>

definition unavailable :: "menu_item_row list \<Rightarrow> order_line \<Rightarrow> bool" where
  "unavailable menu item =
     (case findByPk m_id menu (ol_menu_item_id item) of
        None \<Rightarrow> True
      | Some menuItem \<Rightarrow> \<not> m_is_available menuItem)"

definition itemTotal :: "menu_item_row list \<Rightarrow> order_line \<Rightarrow> rat" where
  "itemTotal menu item =
     (case findByPk m_id menu (ol_menu_item_id item) of
        None \<Rightarrow> 0
      | Some menuItem \<Rightarrow> m_price menuItem * of_int (ol_quantity item))"

text \<open>The second loop: one \<open>OrderItem.create\<close> per entry, in order.\<close>

definition OrderItem_create :: "nat \<Rightarrow> nat \<Rightarrow> pending_item \<Rightarrow> order_item_row" where
  "OrderItem_create new_id order_id p =
     \<lparr> i_id = new_id, i_order_id = order_id, i_menu_item_id = pi_menu_item_id p,
       i_name = pi_name p, i_price = pi_price p, i_quantity = pi_quantity p,
       i_special_instructions = pi_special_instructions p, i_status = I_pending \<rparr>"

fun create_items :: "nat \<Rightarrow> pending_item list \<Rightarrow> order_item_row list \<Rightarrow> order_item_row list" where
  "create_items order_id [] rows = rows"
| "create_items order_id (p # ps) rows =
     create_items order_id ps (rows @ [OrderItem_create (next_id i_id rows) order_id p])"

text \<open>
  \<open>Order.create\<close>: as for sessions, \<open>order_id\<close> is \<open>allowNull: false\<close>
  without a default and is generated (\<open>ORD-\<close>, the date and four random digits) only
  in \<open>beforeCreate\<close>, after validation.
\<close>

definition Order_create :: "string \<Rightarrow> nat \<Rightarrow> int \<Rightarrow> string option \<Rightarrow> nat \<Rightarrow> string \<Rightarrow> string \<Rightarrow> string \<Rightarrow> string \<Rightarrow> string \<Rightarrow> rat \<Rightarrow> rat \<Rightarrow> rat \<Rightarrow> nat \<Rightarrow> string option \<Rightarrow> js_error + order_row" where
  "Order_create generated new_id now order_id table_id table_number customer_name customer_phone
       service_type order_type subtotal tax total' created_by special_instructions =
     (case order_id of
        None \<Rightarrow> Inl SequelizeValidationError
      | Some given \<Rightarrow>
          Inr \<lparr> o_id = new_id, o_order_id = (if given = [] then generated else given),
                o_table_id = table_id, o_table_number = table_number,
                o_customer_name = customer_name, o_customer_phone = customer_phone,
                o_service_type = service_type, o_order_type = order_type,
                o_status = O_pending, o_subtotal = subtotal, o_tax = tax, o_discount = 0,
                o_total = total', o_payment_status = Unpaid, o_created_by = created_by,
                o_special_instructions = special_instructions, o_created_at = now \<rparr>)"

text \<open>The create-order handler; its create call passes no order_id.\<close>

definition create_order :: "string \<Rightarrow> int \<Rightarrow> user_row \<Rightarrow> order_request \<Rightarrow> db \<Rightarrow> order_row response \<times> db" where
  "create_order generated now user req d =
     (if \<not> order_valid req then (Response 400 Validation_failed None, d)
      else
        let table_id = or_table_id req;
            customer_name = trim (or_customer_name req);
            customer_phone = trim (or_customer_phone req);
            service_type = (case or_service_type req of None \<Rightarrow> ''dine-in'' | Some v \<Rightarrow> v)
        in (case findByPk t_id (tables d) table_id of
             None \<Rightarrow> (Response 404 Table_not_found None, d)
           | Some table \<Rightarrow>
               (case price_lines (menu_items d) (or_items req) 0 [] of
                  Inl m \<Rightarrow> (Response 400 m None, d)
                | Inr (subtotal, orderItems) \<Rightarrow>
                    let tax = subtotal * 0.085;
                        total' = subtotal + tax
                    in (case Order_create generated (next_id o_id (orders d)) now None table_id
                                (t_table_number table) customer_name customer_phone service_type
                                (or_order_type req) subtotal tax total' (u_id user)
                                (or_special_instructions req) of
                          Inl e \<Rightarrow> (Response 500 Server_error None, d)
                        | Inr order \<Rightarrow>
                            let d1 = d\<lparr>orders := orders d @ [order]\<rparr>;
                                d2 = d1\<lparr>order_items :=
                                       create_items (o_id order) orderItems (order_items d1)\<rparr>
                            in (Response 201 Order_created_successfully
                                  (findByPk o_id (orders d2) (o_id order)), d2)))))"

section \<open>Reservations (the create-reservation route)\<close>

record reservation_request =
  rq_customer_name :: string
  rq_customer_phone :: string
  rq_customer_email :: "string option"
  rq_table_type :: string
  rq_reservation_date :: string
  rq_reservation_time :: string
  rq_duration :: "int option"
  rq_party_size :: int
  rq_special_requests :: "string option"
  rq_sms_notification :: "bool option"
  rq_email_notification :: "bool option"

definition is_digit :: "char \<Rightarrow> bool" where
  "is_digit c = (c \<in> set ''0123456789'')"

text \<open>The pattern \<open>/^([0-1]?[0-9]|2[0-3]):[0-5][0-9]$/\<close>.\<close>

fun matches_hhmm :: "string \<Rightarrow> bool" where
  "matches_hhmm [h, c, m1, m2] =
     (is_digit h \<and> c = CHR '':'' \<and> m1 \<in> set ''012345'' \<and> is_digit m2)"
| "matches_hhmm [h1, h2, c, m1, m2] =
     (((h1 \<in> set ''01'' \<and> is_digit h2) \<or> (h1 = CHR ''2'' \<and> h2 \<in> set ''0123'')) \<and>
      c = CHR '':'' \<and> m1 \<in> set ''012345'' \<and> is_digit m2)"
| "matches_hhmm _ = False"

text \<open>
  The TIME cell for a text that matches the pattern: minutes since midnight, so that
  \<open>7:05\<close> and \<open>07:05\<close> are the same time, as they are to the database.
\<close>

definition digit_val :: "char \<Rightarrow> nat" where
  "digit_val c = of_char c - 48"

fun time_of :: "string \<Rightarrow> nat" where
  "time_of [h, c, m1, m2] = digit_val h * 60 + digit_val m1 * 10 + digit_val m2"
| "time_of [h1, h2, c, m1, m2] =
     (digit_val h1 * 10 + digit_val h2) * 60 + digit_val m1 * 10 + digit_val m2"
| "time_of _ = 0"

text \<open>
  The validation chain of the route; \<open>isISO8601\<close> is the validator library's date check,
  taken as a parameter, as is \<open>dateonly\<close>, the day that the database reads from the
  date text when it stores it in, or compares it with, a DATEONLY cell.
\<close>

definition reservation_valid :: "(string \<Rightarrow> bool) \<Rightarrow> reservation_request \<Rightarrow> bool" where
  "reservation_valid isISO8601 req =
     (trim (rq_customer_name req) \<noteq> [] \<and> trim (rq_customer_phone req) \<noteq> [] \<and>
      rq_table_type req \<in> set [''Snooker Table'', ''Pool Table'', ''PlayStation Station'',
                                  ''Restaurant Table'', ''Dining Table''] \<and>
      isISO8601 (rq_reservation_date req) \<and> matches_hhmm (rq_reservation_time req) \<and>
      1 \<le> rq_party_size req)"

text \<open>\<open>String.prototype.replace\<close> with a string pattern: the first occurrence only.\<close>

fun replace_first :: "string \<Rightarrow> string \<Rightarrow> string \<Rightarrow> string" where
  "replace_first pat rep [] = (if pat = [] then rep else [])"
| "replace_first pat rep (c # cs) =
     (if prefix pat (c # cs) then rep @ drop (length pat) (c # cs)
      else c # replace_first pat rep cs)"

definition table_type_of :: "string \<Rightarrow> string" where
  "table_type_of table_type = replace_first '' Station'' [] (replace_first '' Table'' [] table_type)"

definition availableTables :: "string \<Rightarrow> db \<Rightarrow> table_row list" where
  "availableTables table_type d =
     filter (\<lambda>t. t_type t = table_type_of table_type \<and> t_status t = T_available \<and> t_is_active t)
       (tables d)"

definition conflictingReservations :: "string \<Rightarrow> int \<Rightarrow> nat \<Rightarrow> db \<Rightarrow> reservation_row list" where
  "conflictingReservations table_type reservation_date reservation_time d =
     filter (\<lambda>r. r_table_type r = table_type \<and> r_reservation_date r = reservation_date \<and>
                 r_reservation_time r = reservation_time \<and>
                 r_status r \<in> set [R_confirmed, R_arrived])
       (reservations d)"

text \<open>\<open>req.user?.id || null\<close>: the route runs without the auth middleware.\<close>

definition created_by_of :: "user_row option \<Rightarrow> nat option" where
  "created_by_of user =
     (case user of None \<Rightarrow> None | Some u \<Rightarrow> if u_id u = 0 then None else Some (u_id u))"

text \<open>
  \<open>Reservation.create\<close>: validation checks \<open>reservation_id\<close>
  (\<open>allowNull: false\<close>, no default, generated only in \<open>beforeCreate\<close>), the
  \<open>isEmail\<close> rule on a given customer_email and \<open>min: 1\<close> on party_size, before
  any hook runs.
\<close>

definition Reservation_create :: "(string \<Rightarrow> bool) \<Rightarrow> string \<Rightarrow> nat \<Rightarrow> string option \<Rightarrow> string \<Rightarrow> string \<Rightarrow> string option \<Rightarrow> nat \<Rightarrow> string \<Rightarrow> int \<Rightarrow> nat \<Rightarrow> int \<Rightarrow> int \<Rightarrow> string option \<Rightarrow> bool \<Rightarrow> bool \<Rightarrow> nat option \<Rightarrow> js_error + reservation_row" where
  "Reservation_create isEmail generated new_id reservation_id customer_name customer_phone
       customer_email table_id table_type reservation_date reservation_time duration party_size
       special_requests sms_notification email_notification created_by =
     (case reservation_id of
        None \<Rightarrow> Inl SequelizeValidationError
      | Some given \<Rightarrow>
          if (case customer_email of None \<Rightarrow> False | Some e \<Rightarrow> \<not> isEmail e) \<or> party_size < 1
          then Inl SequelizeValidationError
          else
            Inr \<lparr> r_id = new_id, r_reservation_id = (if given = [] then generated else given),
                  r_customer_name = customer_name, r_customer_phone = customer_phone,
                  r_customer_email = customer_email, r_table_id = Some table_id,
                  r_table_type = table_type, r_reservation_date = reservation_date,
                  r_reservation_time = reservation_time, r_duration = duration,
                  r_party_size = party_size, r_special_requests = special_requests,
                  r_status = R_confirmed, r_sms_notification = sms_notification,
                  r_email_notification = email_notification, r_created_by = created_by \<rparr>)"

text \<open>The create-reservation handler; its create call passes no reservation_id.\<close>

definition create_reservation :: "(string \<Rightarrow> bool) \<Rightarrow> (string \<Rightarrow> bool) \<Rightarrow> (string \<Rightarrow> int) \<Rightarrow> string \<Rightarrow> user_row option \<Rightarrow> reservation_request \<Rightarrow> db \<Rightarrow> reservation_row response \<times> db" where
  "create_reservation isISO8601 isEmail dateonly generated user req d =
     (if \<not> reservation_valid isISO8601 req then (Response 400 Validation_failed None, d)
      else
        let customer_name = trim (rq_customer_name req);
            customer_phone = trim (rq_customer_phone req);
            table_type = rq_table_type req;
            reservation_date = dateonly (rq_reservation_date req);
            reservation_time = time_of (rq_reservation_time req);
            duration = (case rq_duration req of None \<Rightarrow> 2 | Some v \<Rightarrow> v);
            sms_notification = (case rq_sms_notification req of None \<Rightarrow> True | Some v \<Rightarrow> v);
            email_notification = (case rq_email_notification req of None \<Rightarrow> True | Some v \<Rightarrow> v);
            available = availableTables table_type d
        in (case available of
             [] \<Rightarrow> (Response 400 No_tables_available_for_the_selected_type None, d)
           | assignedTable # _ \<Rightarrow>
               if length (conflictingReservations table_type reservation_date reservation_time d)
                    \<ge> length available
               then (Response 400 No_tables_available_at_the_requested_time None, d)
               else
                 (case Reservation_create isEmail generated (next_id r_id (reservations d)) None
                         customer_name customer_phone (rq_customer_email req) (t_id assignedTable)
                         table_type reservation_date reservation_time duration
                         (rq_party_size req) (rq_special_requests req) sms_notification
                         email_notification (created_by_of user) of
                    Inl e \<Rightarrow> (Response 500 Server_error None, d)
                  | Inr reservation \<Rightarrow>
                      let d1 = d\<lparr>reservations := reservations d @ [reservation]\<rparr>
                      in (Response 201 Reservation_created_successfully
                            (findByPk r_id (reservations d1) (r_id reservation)), d1))))"

section \<open>Registration (routes/auth.js)\<close>

record register_request =
  rg_name :: string
  rg_username :: string
  rg_email :: string
  rg_password :: string
  rg_phone :: string
  rg_role :: "string option"

text \<open>\<open>isEmail\<close> is the validator library's check, taken as a parameter.\<close>

definition register_valid :: "(string \<Rightarrow> bool) \<Rightarrow> register_request \<Rightarrow> bool" where
  "register_valid isEmail req =
     (2 \<le> length (trim (rg_name req)) \<and> 3 \<le> length (trim (rg_username req)) \<and>
      isEmail (rg_email req) \<and> 3 \<le> length (rg_password req) \<and> trim (rg_phone req) \<noteq> [] \<and>
      (case rg_role req of None \<Rightarrow> True
                         | Some r \<Rightarrow> r \<in> set [''Admin'', ''Staff'', ''Manager'', ''User'']))"

definition admin_permissions :: permissions where
  "admin_permissions =
     \<lparr> tablesManagement = \<lparr>tm_view = True, tm_manage = True, tm_status = True\<rparr>,
       orderProcessing = \<lparr>op_create = True, op_modify = True, op_cancel = True\<rparr>,
       billingAccess = \<lparr>ba_generate = True, ba_payments = True, ba_reports = True\<rparr>,
       kotManagement = \<lparr>km_print = True, km_modify = True, km_status = True\<rparr>,
       specialPermissions =
         \<lparr> voidOrders = \<lparr>vo_items = True, vo_fullOrder = True, vo_afterPayment = True\<rparr>,
           discounts = \<lparr>dc_item = True, dc_bill = True, dc_offers = True, dc_maxDiscount = 25\<rparr> \<rparr>,
       reportAccess = \<lparr>ra_daily = True, ra_table = True, ra_item = True\<rparr>,
       canAddItems = True, canChangePrices = True, canManageStaff = True \<rparr>"

definition manager_permissions :: permissions where
  "manager_permissions =
     \<lparr> tablesManagement = \<lparr>tm_view = True, tm_manage = True, tm_status = True\<rparr>,
       orderProcessing = \<lparr>op_create = True, op_modify = True, op_cancel = True\<rparr>,
       billingAccess = \<lparr>ba_generate = True, ba_payments = True, ba_reports = True\<rparr>,
       kotManagement = \<lparr>km_print = True, km_modify = True, km_status = True\<rparr>,
       specialPermissions =
         \<lparr> voidOrders = \<lparr>vo_items = True, vo_fullOrder = False, vo_afterPayment = False\<rparr>,
           discounts = \<lparr>dc_item = True, dc_bill = True, dc_offers = True, dc_maxDiscount = 15\<rparr> \<rparr>,
       reportAccess = \<lparr>ra_daily = True, ra_table = True, ra_item = True\<rparr>,
       canAddItems = True, canChangePrices = True, canManageStaff = False \<rparr>"

definition staff_permissions :: permissions where
  "staff_permissions =
     \<lparr> tablesManagement = \<lparr>tm_view = True, tm_manage = False, tm_status = True\<rparr>,
       orderProcessing = \<lparr>op_create = True, op_modify = False, op_cancel = False\<rparr>,
       billingAccess = \<lparr>ba_generate = False, ba_payments = False, ba_reports = False\<rparr>,
       kotManagement = \<lparr>km_print = True, km_modify = False, km_status = True\<rparr>,
       specialPermissions =
         \<lparr> voidOrders = \<lparr>vo_items = False, vo_fullOrder = False, vo_afterPayment = False\<rparr>,
           discounts = \<lparr>dc_item = False, dc_bill = False, dc_offers = False, dc_maxDiscount = 0\<rparr> \<rparr>,
       reportAccess = \<lparr>ra_daily = False, ra_table = False, ra_item = False\<rparr>,
       canAddItems = False, canChangePrices = False, canManageStaff = False \<rparr>"

definition role_permissions :: "string \<Rightarrow> permissions option" where
  "role_permissions role =
     (if role = ''Admin'' then Some admin_permissions
      else if role = ''Manager'' then Some manager_permissions
      else if role = ''Staff'' then Some staff_permissions
      else None)"

text \<open>
  \<open>User.findOne({ where: { $or: [{ email }, { username }] } })\<close>. The string
  \<open>$or\<close> is an operator only when the Sequelize constructor is given
  \<open>operatorsAliases\<close>; from version 5 on the aliases are off by default (the routes
  use \<open>findByPk\<close> and the \<open>Op\<close> symbols of those versions), and then the key
  is no operator and the query is refused. The setting is the first argument; the source
  enables no aliases.
\<close>

definition operatorsAliases_default :: bool where
  "operatorsAliases_default = False"

definition existingUser :: "bool \<Rightarrow> string \<Rightarrow> string \<Rightarrow> db \<Rightarrow> js_error + user_row option" where
  "existingUser operatorsAliases email username d =
     (if operatorsAliases
      then Inr (find (\<lambda>u. u_email u = email \<or> u_username u = username) (users d))
      else Inl SequelizeError)"

text \<open>
  \<open>hash\<close> is the salted hash that the User model stores in place of the password.
\<close>

definition register_in :: "bool \<Rightarrow> (string \<Rightarrow> bool) \<Rightarrow> (string \<Rightarrow> string) \<Rightarrow> register_request \<Rightarrow> db \<Rightarrow> user_row response \<times> db" where
  "register_in operatorsAliases isEmail hash req d =
     (if \<not> register_valid isEmail req then (Response 400 Validation_failed None, d)
      else
        let name = trim (rg_name req);
            username = trim (rg_username req);
            email = rg_email req;
            phone = trim (rg_phone req);
            role = (case rg_role req of None \<Rightarrow> ''User'' | Some r \<Rightarrow> r)
        in (case existingUser operatorsAliases email username d of
             Inl e \<Rightarrow> (Response 500 Server_error_during_registration None, d)
           | Inr (Some _) \<Rightarrow>
               (Response 400 User_with_this_email_or_username_already_exists None, d)
           | Inr None \<Rightarrow>
               let user = \<lparr> u_id = next_id u_id (users d), u_name = name, u_username = username,
                             u_email = email, u_password = hash (rg_password req),
                             u_phone = phone, u_role = role,
                             u_permissions = role_permissions role \<rparr>
               in (Response 201 User_registered_successfully (Some user),
                   d\<lparr>users := users d @ [user]\<rparr>)))"

text \<open>The handler with Sequelize's default setting.\<close>

definition register :: "(string \<Rightarrow> bool) \<Rightarrow> (string \<Rightarrow> string) \<Rightarrow> register_request \<Rightarrow> db \<Rightarrow> user_row response \<times> db" where
  "register = register_in operatorsAliases_default"

section \<open>A small store for the examples\<close>

definition table1 :: table_row where
  "table1 = \<lparr> t_id = 1, t_table_number = ''T1'', t_type = ''Snooker'', t_status = T_occupied,
              t_hourly_rate = 120, t_plug_id = Some ''plug-1'', t_plug_status = Plug_online,
              t_current_session_id = Some 1, t_session_start_time = Some 0,
              t_session_end_time = None, t_customer_name = Some ''Asha'',
              t_customer_phone = Some ''555-0100'', t_is_active = True \<rparr>"

definition table2 :: table_row where
  "table2 = \<lparr> t_id = 2, t_table_number = ''T2'', t_type = ''Snooker'', t_status = T_available,
              t_hourly_rate = 90, t_plug_id = Some ''plug-2'', t_plug_status = Plug_offline,
              t_current_session_id = None, t_session_start_time = None,
              t_session_end_time = None, t_customer_name = None,
              t_customer_phone = None, t_is_active = True \<rparr>"

definition session1 :: session_row where
  "session1 = \<lparr> s_id = 1, s_session_id = ''SES-20260115-0001'', s_table_id = 1, s_table_number = ''T1'', s_customer_name = ''Asha'',
                s_customer_phone = ''555-0100'', s_start_time = 0, s_end_time = None,
                s_duration = 0, s_hourly_rate = 120, s_session_cost = 0, s_total_order_cost = 0,
                s_subtotal = 0, s_tax = 0, s_service_fee = 0, s_discount = Number 0,
                s_total = Number 0,
                s_payment_status = Unpaid, s_payment_method = None, s_status = S_active,
                s_created_by = 7 \<rparr>"

definition session2 :: session_row where
  "session2 = \<lparr> s_id = 2, s_session_id = ''SES-20260115-0002'', s_table_id = 2, s_table_number = ''T2'', s_customer_name = ''Ben'',
                s_customer_phone = ''555-0101'', s_start_time = 0, s_end_time = Some 3600000,
                s_duration = 60, s_hourly_rate = 90, s_session_cost = 90, s_total_order_cost = 110,
                s_subtotal = 200, s_tax = 17, s_service_fee = 10, s_discount = Number 0,
                s_total = Number 227,
                s_payment_status = Unpaid, s_payment_method = None, s_status = S_completed,
                s_created_by = 7 \<rparr>"

definition order1 :: order_row where
  "order1 = \<lparr> o_id = 1, o_order_id = ''ORD-20260115-0001'', o_table_id = 1, o_table_number = ''T1'', o_customer_name = ''Asha'',
              o_customer_phone = ''555-0100'', o_service_type = ''dine-in'', o_order_type = ''food'',
              o_status = O_cancelled, o_subtotal = 200, o_tax = 17, o_discount = 0, o_total = 217,
              o_payment_status = Unpaid, o_created_by = 7, o_special_instructions = None,
              o_created_at = 60000 \<rparr>"

definition order2 :: order_row where
  "order2 = \<lparr> o_id = 2, o_order_id = ''ORD-20260115-0002'', o_table_id = 1, o_table_number = ''T1'', o_customer_name = ''Asha'',
              o_customer_phone = ''555-0100'', o_service_type = ''dine-in'', o_order_type = ''drinks'',
              o_status = O_confirmed, o_subtotal = 100, o_tax = 17 / 2, o_discount = 0,
              o_total = 217 / 2, o_payment_status = Unpaid, o_created_by = 7,
              o_special_instructions = None, o_created_at = 120000 \<rparr>"

definition item1 :: order_item_row where
  "item1 = \<lparr> i_id = 1, i_order_id = 2, i_menu_item_id = 1, i_name = ''Lime soda'', i_price = 40,
             i_quantity = 1, i_special_instructions = None, i_status = I_ready \<rparr>"

definition item2 :: order_item_row where
  "item2 = \<lparr> i_id = 2, i_order_id = 2, i_menu_item_id = 2, i_name = ''Cold coffee'', i_price = 60,
             i_quantity = 1, i_special_instructions = None, i_status = I_pending \<rparr>"

definition item3 :: order_item_row where
  "item3 = \<lparr> i_id = 3, i_order_id = 2, i_menu_item_id = 2, i_name = ''Cold coffee'', i_price = 60,
             i_quantity = 1, i_special_instructions = None, i_status = I_preparing \<rparr>"

definition menu1 :: menu_item_row where
  "menu1 = \<lparr> m_id = 1, m_name = ''Lime soda'', m_price = 40, m_is_available = True \<rparr>"

definition menu2 :: menu_item_row where
  "menu2 = \<lparr> m_id = 2, m_name = ''Cold coffee'', m_price = 60, m_is_available = True \<rparr>"

definition menu3 :: menu_item_row where
  "menu3 = \<lparr> m_id = 3, m_name = ''Brownie'', m_price = 80, m_is_available = False \<rparr>"

definition manager :: user_row where
  "manager = \<lparr> u_id = 7, u_name = ''Mira'', u_username = ''mira'', u_email = ''mira@example.com'',
               u_password = ''#'', u_phone = ''555-0107'', u_role = ''Manager'',
               u_permissions = Some manager_permissions \<rparr>"

definition waiter :: user_row where
  "waiter = \<lparr> u_id = 8, u_name = ''Wes'', u_username = ''wes'', u_email = ''wes@example.com'',
              u_password = ''#'', u_phone = ''555-0108'', u_role = ''Staff'',
              u_permissions = Some staff_permissions \<rparr>"

definition db0 :: db where
  "db0 = \<lparr> users = [manager, waiter], tables = [table1, table2],
           menu_items = [menu1, menu2, menu3], orders = [order1, order2],
           order_items = [item1, item2], sessions = [session1, session2], reservations = [] \<rparr>"

text \<open>The same store with a third item on order 2, still being prepared.\<close>

definition db1 :: db where
  "db1 = db0\<lparr>order_items := [item1, item2, item3]\<rparr>"



definition res_req1 :: reservation_request where
  "res_req1 = \<lparr> rq_customer_name = ''Dee'', rq_customer_phone = ''555-0102'',
                rq_customer_email = None, rq_table_type = ''Snooker Table'',
                rq_reservation_date = ''2026-01-15'', rq_reservation_time = ''18:30'',
                rq_duration = None, rq_party_size = 4, rq_special_requests = None,
                rq_sms_notification = None, rq_email_notification = None \<rparr>"

definition res_req2 :: reservation_request where
  "res_req2 = res_req1\<lparr>rq_table_type := ''Pool Table''\<rparr>"


definition iso_date :: "string \<Rightarrow> bool" where
  "iso_date s = (length s = 10)"

text \<open>A stand-in for the database's reading of a date text: the day of the month.\<close>

definition day_of :: "string \<Rightarrow> int" where
  "day_of s = (case drop 8 s of [a, b] \<Rightarrow> int (digit_val a * 10 + digit_val b) | _ \<Rightarrow> 0)"

definition res_req3 :: reservation_request where
  "res_req3 = res_req1\<lparr>rq_reservation_time := ''7:05''\<rparr>"

definition reservation1 :: reservation_row where
  "reservation1 = \<lparr> r_id = 1, r_reservation_id = ''RES-20260110-0001'', r_customer_name = ''Eli'',
                    r_customer_phone = ''555-0105'', r_customer_email = None,
                    r_table_id = Some 2, r_table_type = ''Snooker Table'',
                    r_reservation_date = 15, r_reservation_time = 425, r_duration = 2,
                    r_party_size = 2, r_special_requests = None, r_status = R_confirmed,
                    r_sms_notification = True, r_email_notification = True,
                    r_created_by = None \<rparr>"

text \<open>The store with one confirmed reservation of a snooker table at 07:05 on the 15th.\<close>

definition db2 :: db where
  "db2 = db0\<lparr>reservations := [reservation1]\<rparr>"

definition has_at :: "string \<Rightarrow> bool" where
  "has_at s = (CHR ''@'' \<in> set s)"

definition reg_req1 :: register_request where
  "reg_req1 = \<lparr> rg_name = ''Ann Lee'', rg_username = ''ann'', rg_email = ''ann@example.com'',
                rg_password = ''s3cret'', rg_phone = ''555-0103'', rg_role = None \<rparr>"

definition reg_req2 :: register_request where
  "reg_req2 = \<lparr> rg_name = ''Anna Lee'', rg_username = ''anna'', rg_email = ''ann@example.com'',
                rg_password = ''0ther'', rg_phone = ''555-0104'', rg_role = Some ''Staff'' \<rparr>"

section \<open>Lemmas on the ORM operations\<close>

lemma findByPk_Some_iff: "findByPk pk rows k = Some r \<Longrightarrow> pk r = k \<and> r \<in> set rows"
  by (auto simp: findByPk_def find_Some_iff)

lemma findByPk_update_row:
  "findByPk pk rows k = Some r \<Longrightarrow> pk (f r) = k \<Longrightarrow>
   findByPk pk (update_row pk k f rows) k = Some (f r)"
  by (induction rows) (auto simp: findByPk_def update_row_def split: if_splits)

lemma foldl_add_sum_list: "foldl (\<lambda>sum x. sum + f x) a xs = (a::rat) + sum_list (map f xs)"
  by (induction xs arbitrary: a) simp_all

lemma total_order_cost_sum_list: "total_order_cost found = sum_list (map o_total found)"
  by (simp add: total_order_cost_def foldl_add_sum_list)

lemma db0_session1: "findByPk s_id (sessions db0) 1 = Some session1"
  by (simp add: findByPk_def db0_def session1_def)

lemma db0_session2: "findByPk s_id (sessions db0) 2 = Some session2"
  by (simp add: findByPk_def db0_def session1_def session2_def)

lemma db0_table1: "findByPk t_id (tables db0) 1 = Some table1"
  by (simp add: findByPk_def db0_def table1_def)

lemma db0_table2: "findByPk t_id (tables db0) 2 = Some table2"
  by (simp add: findByPk_def db0_def table1_def table2_def)

section \<open>Ending a session\<close>

text \<open>
  With \<open>Op\<close> unbound the handler gets as far as the status check; an active session
  then runs into the query expression and the catch block answers 500 before anything
  is stored.
\<close>

lemma end_session_in_unbound:
  "end_session_in None now sid d =
     (case findByPk s_id (sessions d) sid of
        None \<Rightarrow> (Response 404 Session_not_found None, d)
      | Some session \<Rightarrow>
          if s_status session \<noteq> S_active then (Response 400 Session_is_not_active None, d)
          else (Response 500 Server_error None, d))"
  by (simp add: end_session_in_def window_where_def Let_def split: option.splits)

text \<open>
  With \<open>Op\<close> bound to Sequelize's operators, as routes/reports.js binds it, the same
  handler stores the figures of the bill: the duration in minutes rounded up, the
  session cost, the sum of the totals of all orders of the table created in the window
  (whatever their status), subtotal, tax, service fee and total, and it resets the table.
\<close>

lemma end_session_in_bound:
  assumes s: "findByPk s_id (sessions d) sid = Some session"
    and a: "s_status session = S_active"
    and t: "findByPk t_id (tables d) (s_table_id session) = Some table"
  shows "\<exists>s' d'. end_session_in (Some Sequelize_Op) now sid d =
             (Response 200 Session_ended_successfully (Some s'), d') \<and>
           findByPk s_id (sessions d') sid = Some s' \<and>
           s_end_time s' = Some now \<and>
           s_duration s' = \<lceil>(of_int (now - s_start_time session) :: rat) / 60000\<rceil> \<and>
           s_session_cost s' = (of_int (s_duration s') / 60) * s_hourly_rate session \<and>
           s_total_order_cost s' =
             sum_list (map o_total (filter (\<lambda>order. o_table_id order = s_table_id session \<and>
                s_start_time session \<le> o_created_at order \<and> o_created_at order \<le> now) (orders d))) \<and>
           s_subtotal s' = s_session_cost s' + s_total_order_cost s' \<and>
           s_tax s' = 0.085 * s_subtotal s' \<and>
           s_service_fee s' = 0.05 * s_subtotal s' \<and>
           s_total s' = Number (1.135 * s_subtotal s') \<and>
           s_status s' = S_completed \<and>
           findByPk t_id (tables d') (s_table_id session) = Some (table_reset now table)"
proof -
  have tid: "t_id table = s_table_id session"
    using findByPk_Some_iff [OF t] by simp
  have sid: "s_id session = sid"
    using findByPk_Some_iff [OF s] by simp
  have t': "findByPk t_id (update_row t_id (s_table_id session) (table_reset now) (tables d))
              (s_table_id session) = Some (table_reset now table)"
    using t tid by (intro findByPk_update_row) (simp_all add: table_reset_def)
  have s': "\<And>f. s_id (f session) = sid \<Longrightarrow>
              findByPk s_id (update_row s_id sid f (sessions d)) sid = Some (f session)"
    using s by (rule findByPk_update_row)
  show ?thesis
    using s a t tid
    apply (simp add: end_session_in_def window_where_def Let_def t')
    apply (subst s')
     apply (simp add: session_end_update_def sid)
    apply (simp add: session_end_update_def session_cost_def session_duration_def
        total_order_cost_sum_list algebra_simps)
    done
qed

text \<open>The example store, session 1 ended after 90 minutes and one millisecond.\<close>

lemma end_session_in_bound_example:
  "\<exists>s' d'. end_session_in reports_js_Op 5400001 1 db0 =
      (Response 200 Session_ended_successfully (Some s'), d') \<and>
    s_duration s' = 91 \<and> s_session_cost s' = 182 \<and> s_total_order_cost s' = 651 / 2 \<and>
    s_subtotal s' = 1015 / 2 \<and> s_tax s' = 3451 / 80 \<and> s_service_fee s' = 203 / 8 \<and>
    s_total s' = Number (46081 / 80) \<and> s_status s' = S_completed \<and>
    map_option t_status (findByPk t_id (tables d') 1) = Some T_available"
proof -
  have a: "s_status session1 = S_active" by (simp add: session1_def)
  have t: "findByPk t_id (tables db0) (s_table_id session1) = Some table1"
    using db0_table1 by (simp add: session1_def)
  have o: "filter (\<lambda>order. o_table_id order = s_table_id session1 \<and>
                s_start_time session1 \<le> o_created_at order \<and> o_created_at order \<le> 5400001) (orders db0) =
           [order1, order2]"
    by (simp add: db0_def order1_def order2_def session1_def)
  have c: "\<lceil>(5400001::rat) / 60000\<rceil> = 91"
    by (rule ceiling_unique) simp_all
  from end_session_in_bound [OF db0_session1 a t, of 5400001]
  show ?thesis
    unfolding o reports_js_Op_def
    by (auto simp: session1_def order1_def order2_def table_reset_def c)
qed

text \<open>
  C1, the handler of routes/sessions.js on a stored session. The end operation is to
  store duration, session cost, order cost, subtotal, tax, service fee and total, to
  complete the session and to reset the table; a session that is not active is to be
  rejected with no change. The handler as written does the second and not the first:
  for an active session it answers 500 and leaves the store as it was, because the query
  for the orders names \<open>Op\<close>, which the file never imports.
\<close>

theorem end_session_as_written:
  assumes "findByPk s_id (sessions d) sid = Some session"
  shows "end_session now sid d =
           (if s_status session = S_active then (Response 500 Server_error None, d)
            else (Response 400 Session_is_not_active None, d))"
  using assms by (simp add: end_session_def sessions_js_Op_def end_session_in_unbound)

theorem end_session_as_written_witness:
  "end_session 5400001 1 db0 = (Response 500 Server_error None, db0) \<and>
   end_session 5400001 2 db0 = (Response 400 Session_is_not_active None, db0)"
  using end_session_as_written [OF db0_session1, of 5400001]
    end_session_as_written [OF db0_session2, of 5400001]
  by (simp add: session1_def session2_def)

text \<open>
  C9, the order sum at session end. The sum is to range over every order of the table in
  the window, cancelled ones included, and to enter the billed subtotal. At an active
  session whose window holds a cancelled order the handler as written answers 500 and the
  session row stays as it was, so no order total reaches a subtotal.
\<close>

theorem end_session_bills_no_order:
  assumes "findByPk s_id (sessions d) sid = Some session" and "s_status session = S_active"
    and "order \<in> set (orders d)" and "o_table_id order = s_table_id session"
    and "s_start_time session \<le> o_created_at order" and "o_created_at order \<le> now"
    and "o_status order = O_cancelled"
  shows "status_code (fst (end_session now sid d)) = 500 \<and>
         findByPk s_id (sessions (snd (end_session now sid d))) sid = Some session"
  using assms by (simp add: end_session_def sessions_js_Op_def end_session_in_unbound)

theorem end_session_bills_no_order_witness:
  "status_code (fst (end_session 5400001 1 db0)) = 500 \<and>
   findByPk s_id (sessions (snd (end_session 5400001 1 db0))) 1 = Some session1 \<and>
   s_subtotal session1 = 0 \<and> o_total order1 = 217"
proof -
  have "order1 \<in> set (orders db0)" by (simp add: db0_def)
  moreover have "o_table_id order1 = s_table_id session1" by (simp add: order1_def session1_def)
  moreover have "s_start_time session1 \<le> o_created_at order1" by (simp add: order1_def session1_def)
  moreover have "o_created_at order1 \<le> 5400001" by (simp add: order1_def)
  moreover have "o_status order1 = O_cancelled" by (simp add: order1_def)
  moreover have "s_status session1 = S_active" by (simp add: session1_def)
  ultimately show ?thesis
    using end_session_bills_no_order [OF db0_session1, of order1 5400001]
    by (simp add: session1_def order1_def)
qed

section \<open>Payment\<close>

lemma process_payment_in_paid:
  assumes "findByPk s_id (sessions d) sid = Some session" and "s_payment_status session = Paid"
  shows "status_code (fst (process_payment_in Op now sid req d)) = 400 \<and>
         snd (process_payment_in Op now sid req d) = d"
  using assms by (simp add: process_payment_in_def)

lemma payment_end_active:
  assumes s: "findByPk s_id (sessions d) sid = Some session"
    and t: "findByPk t_id (tables d) (s_table_id session) = Some table"
  shows "\<exists>d'. payment_end now sid session (Some table) d =
            (Inr (payment_end_update now (session_duration session now) (session_cost session now) session), d') \<and>
          orders d' = orders d \<and>
          findByPk s_id (sessions d') sid =
            Some (payment_end_update now (session_duration session now) (session_cost session now) session) \<and>
          findByPk t_id (tables d') (s_table_id session) = Some (table_reset now table)"
proof -
  have tid: "t_id table = s_table_id session"
    using findByPk_Some_iff [OF t] by simp
  have sid: "s_id session = sid"
    using findByPk_Some_iff [OF s] by simp
  have t': "findByPk t_id (update_row t_id (s_table_id session) (table_reset now) (tables d))
              (s_table_id session) = Some (table_reset now table)"
    using t tid by (intro findByPk_update_row) (simp_all add: table_reset_def)
  have s': "findByPk s_id (update_row s_id sid
                (payment_end_update now (session_duration session now) (session_cost session now))
                (sessions d)) sid =
            Some (payment_end_update now (session_duration session now) (session_cost session now) session)"
    using s by (rule findByPk_update_row) (simp add: payment_end_update_def sid)
  show ?thesis
    by (simp add: payment_end_def Let_def tid t' s')
qed

lemma process_payment_in_active:
  assumes v: "payment_valid req"
    and s: "findByPk s_id (sessions d) sid = Some session"
    and u: "s_payment_status session \<noteq> Paid"
    and a: "s_status session = S_active"
    and t: "findByPk t_id (tables d) (s_table_id session) = Some table"
  shows "\<exists>d'. process_payment_in Op now sid req d =
           (case Op of
              None \<Rightarrow> (Response 500 Server_error None, d')
            | Some _ \<Rightarrow>
                (Response 200 Payment_processed_successfully
                   (Some (session\<lparr>s_payment_status := Paid,
                                  s_payment_method := Some (pr_payment_method req),
                                  s_end_time := Some now,
                                  s_duration := session_duration session now,
                                  s_session_cost := session_cost session now,
                                  s_status := S_completed\<rparr>)),
                 d'\<lparr>orders := map (\<lambda>order. if o_table_id order = s_table_id session \<and>
                                               s_start_time session \<le> o_created_at order \<and>
                                               o_created_at order \<le> now
                                            then order\<lparr>o_payment_status := Paid\<rparr> else order)
                                   (orders d)\<rparr>)) \<and>
         orders d' = orders d \<and>
         findByPk s_id (sessions d') sid =
           Some (session\<lparr>s_payment_status := Paid,
                         s_payment_method := Some (pr_payment_method req),
                         s_end_time := Some now,
                         s_duration := session_duration session now,
                         s_session_cost := session_cost session now,
                         s_status := S_completed\<rparr>) \<and>
         findByPk t_id (tables d') (s_table_id session) = Some (table_reset now table)"
proof -
  let ?paid = "\<lambda>s. s\<lparr>s_payment_status := Paid, s_payment_method := Some (pr_payment_method req)\<rparr>"
  let ?d1 = "d\<lparr>sessions := update_row s_id sid ?paid (sessions d)\<rparr>"
  have sid: "s_id session = sid"
    using findByPk_Some_iff [OF s] by simp
  have s1: "findByPk s_id (sessions ?d1) sid = Some (?paid session)"
    using findByPk_update_row [OF s, of ?paid] sid by simp
  have t1: "findByPk t_id (tables ?d1) (s_table_id (?paid session)) = Some table"
    using t by simp
  obtain d' where pe: "payment_end now sid (?paid session) (Some table) ?d1 =
        (Inr (payment_end_update now (session_duration (?paid session) now)
                (session_cost (?paid session) now) (?paid session)), d')"
    and o': "orders d' = orders ?d1"
    and s': "findByPk s_id (sessions d') sid =
        Some (payment_end_update now (session_duration (?paid session) now)
                (session_cost (?paid session) now) (?paid session))"
    and t': "findByPk t_id (tables d') (s_table_id (?paid session)) = Some (table_reset now table)"
    using payment_end_active [OF s1 t1, of now] by blast
  have dur: "session_duration (?paid session) now = session_duration session now"
    by (simp add: session_duration_def)
  have cost: "session_cost (?paid session) now = session_cost session now"
    by (simp add: session_cost_def session_duration_def)
  show ?thesis
    apply (rule exI [of _ d'])
    using v s u a t pe o' s' t'
    apply (simp add: process_payment_in_def Let_def dur cost window_where_def
        payment_end_update_def split: option.splits)
    done
qed

text \<open>
  C2, the payment handler at an unpaid, active session. Payment is to run the end
  computation of the end endpoint (duration, session cost, order cost, subtotal, tax,
  service fee, total), to complete the session, reset the table and mark the orders of
  the window as paid. The handler as written marks the session paid and completed and
  stores end_time, duration and session_cost only: order cost, subtotal, tax, service fee
  and total keep their old values. It then reaches the update of the orders, whose
  where-clause names the unimported \<open>Op\<close>: the answer is 500 and no order is marked.
\<close>

theorem process_payment_active_incomplete:
  assumes "payment_valid req"
    and "findByPk s_id (sessions d) sid = Some session"
    and "s_payment_status session \<noteq> Paid"
    and "s_status session = S_active"
    and "findByPk t_id (tables d) (s_table_id session) = Some table"
  shows "status_code (fst (process_payment now sid req d)) = 500 \<and>
         orders (snd (process_payment now sid req d)) = orders d \<and>
         findByPk s_id (sessions (snd (process_payment now sid req d))) sid =
           Some (session\<lparr>s_payment_status := Paid,
                         s_payment_method := Some (pr_payment_method req),
                         s_end_time := Some now,
                         s_duration := session_duration session now,
                         s_session_cost := session_cost session now,
                         s_status := S_completed\<rparr>)"
  using process_payment_in_active [OF assms, of None now]
  by (auto simp: process_payment_def billing_js_Op_def)

theorem process_payment_active_incomplete_witness:
  "status_code (fst (process_payment 5400001 1 \<lparr>pr_payment_method = ''cash'', pr_amount_paid = 600\<rparr> db0)) = 500 \<and>
   orders (snd (process_payment 5400001 1 \<lparr>pr_payment_method = ''cash'', pr_amount_paid = 600\<rparr> db0)) = [order1, order2] \<and>
   o_payment_status order1 = Unpaid \<and> o_payment_status order2 = Unpaid \<and>
   map_option s_total (findByPk s_id (sessions (snd (process_payment 5400001 1 \<lparr>pr_payment_method = ''cash'', pr_amount_paid = 600\<rparr> db0))) 1) = Some (Number 0) \<and>
   map_option s_payment_status (findByPk s_id (sessions (snd (process_payment 5400001 1 \<lparr>pr_payment_method = ''cash'', pr_amount_paid = 600\<rparr> db0))) 1) = Some Paid"
proof -
  have v: "payment_valid \<lparr>pr_payment_method = ''cash'', pr_amount_paid = 600\<rparr>"
    by (simp add: payment_valid_def)
  have u: "s_payment_status session1 \<noteq> Paid" by (simp add: session1_def)
  have a: "s_status session1 = S_active" by (simp add: session1_def)
  have t: "findByPk t_id (tables db0) (s_table_id session1) = Some table1"
    using db0_table1 by (simp add: session1_def)
  show ?thesis
    using process_payment_active_incomplete [OF v db0_session1 u a t, of 5400001]
    by (simp add: db0_def session1_def order1_def order2_def)
qed

section \<open>Completing a ticket item\<close>

lemma update_row_other_mem: "r \<in> set rows \<Longrightarrow> pk r \<noteq> k \<Longrightarrow> r \<in> set (update_row pk k f rows)"
  by (induction rows) (auto simp: update_row_def)

lemma complete_item_found:
  assumes "findByPk i_id (order_items d) itemId = Some orderItem"
  shows "complete_item itemId d =
           (Response 200 Item_marked_as_complete (Some (orderItem\<lparr>i_status := I_ready\<rparr>)),
            d\<lparr>order_items := update_row i_id itemId (\<lambda>i. i\<lparr>i_status := I_ready\<rparr>) (order_items d),
              orders := (if list_all (\<lambda>i. i_status i = I_ready)
                              (filter (\<lambda>i. i_order_id i = i_order_id orderItem)
                                 (update_row i_id itemId (\<lambda>i. i\<lparr>i_status := I_ready\<rparr>) (order_items d)))
                         then update_row o_id (i_order_id orderItem)
                                (\<lambda>order. order\<lparr>o_status := O_ready\<rparr>) (orders d)
                         else orders d)\<rparr>)"
  using assms by (simp add: complete_item_def Let_def)

text \<open>
  C4, marking an item complete. The item is stored with status 'ready'. The orders
  table afterwards is the old one with the parent order set to 'ready' if every item of
  that order is 'ready' in the store after the update (the handler scans them all
  again), and the old one unchanged otherwise; in particular a sibling item that is not
  'ready' leaves the orders, and so the parent's status, as they were.
\<close>

theorem complete_item_cascade:
  assumes f: "findByPk i_id (order_items d) itemId = Some orderItem"
  shows "findByPk i_id (order_items (snd (complete_item itemId d))) itemId =
           Some (orderItem\<lparr>i_status := I_ready\<rparr>) \<and>
         orders (snd (complete_item itemId d)) =
           (if list_all (\<lambda>i. i_status i = I_ready)
                 (filter (\<lambda>i. i_order_id i = i_order_id orderItem)
                    (order_items (snd (complete_item itemId d))))
            then update_row o_id (i_order_id orderItem) (\<lambda>order. order\<lparr>o_status := O_ready\<rparr>) (orders d)
            else orders d) \<and>
         ((\<exists>sibling \<in> set (order_items d). i_order_id sibling = i_order_id orderItem \<and>
              i_id sibling \<noteq> itemId \<and> i_status sibling \<noteq> I_ready) \<longrightarrow>
            orders (snd (complete_item itemId d)) = orders d)"
proof (intro conjI impI)
  have iid: "i_id orderItem = itemId"
    using findByPk_Some_iff [OF f] by simp
  show "findByPk i_id (order_items (snd (complete_item itemId d))) itemId =
           Some (orderItem\<lparr>i_status := I_ready\<rparr>)"
    using findByPk_update_row [OF f, of "\<lambda>i. i\<lparr>i_status := I_ready\<rparr>"] iid
    by (simp add: complete_item_found [OF f])
  show "orders (snd (complete_item itemId d)) =
           (if list_all (\<lambda>i. i_status i = I_ready)
                 (filter (\<lambda>i. i_order_id i = i_order_id orderItem)
                    (order_items (snd (complete_item itemId d))))
            then update_row o_id (i_order_id orderItem) (\<lambda>order. order\<lparr>o_status := O_ready\<rparr>) (orders d)
            else orders d)"
    by (simp add: complete_item_found [OF f])
  assume "\<exists>sibling \<in> set (order_items d). i_order_id sibling = i_order_id orderItem \<and>
              i_id sibling \<noteq> itemId \<and> i_status sibling \<noteq> I_ready"
  then obtain sibling where m: "sibling \<in> set (order_items d)"
    and o: "i_order_id sibling = i_order_id orderItem"
    and k: "i_id sibling \<noteq> itemId" and n: "i_status sibling \<noteq> I_ready"
    by blast
  have "sibling \<in> set (update_row i_id itemId (\<lambda>i. i\<lparr>i_status := I_ready\<rparr>) (order_items d))"
    using m k by (rule update_row_other_mem)
  then have "\<not> list_all (\<lambda>i. i_status i = I_ready)
                 (filter (\<lambda>i. i_order_id i = i_order_id orderItem)
                    (update_row i_id itemId (\<lambda>i. i\<lparr>i_status := I_ready\<rparr>) (order_items d)))"
    using o n by (auto simp: list_all_iff)
  then show "orders (snd (complete_item itemId d)) = orders d"
    by (simp add: complete_item_found [OF f])
qed

lemma db0_item2: "findByPk i_id (order_items db0) 2 = Some item2"
  by (simp add: findByPk_def db0_def item1_def item2_def)

lemma db1_item2: "findByPk i_id (order_items db1) 2 = Some item2"
  by (simp add: findByPk_def db1_def item1_def item2_def)

theorem complete_item_cascade_witness:
  "map_option i_status (findByPk i_id (order_items (snd (complete_item 2 db0))) 2) = Some I_ready \<and>
   map o_status (orders (snd (complete_item 2 db0))) = [O_cancelled, O_ready] \<and>
   map o_status (orders db0) = [O_cancelled, O_confirmed] \<and>
   map_option i_status (findByPk i_id (order_items (snd (complete_item 2 db1))) 2) = Some I_ready \<and>
   orders (snd (complete_item 2 db1)) = orders db1"
proof -
  have s: "\<exists>sibling \<in> set (order_items db1). i_order_id sibling = i_order_id item2 \<and>
              i_id sibling \<noteq> 2 \<and> i_status sibling \<noteq> I_ready"
    by (simp add: db1_def item1_def item2_def item3_def)
  have r: "order_items (snd (complete_item 2 db0)) = [item1, item2\<lparr>i_status := I_ready\<rparr>]"
    unfolding complete_item_found [OF db0_item2]
    by (simp add: db0_def update_row_def item1_def item2_def)
  have i0: "findByPk i_id (order_items (snd (complete_item 2 db0))) 2 = Some (item2\<lparr>i_status := I_ready\<rparr>)"
    using complete_item_cascade [OF db0_item2] by blast
  have o0: "orders (snd (complete_item 2 db0)) =
              update_row o_id 2 (\<lambda>order. order\<lparr>o_status := O_ready\<rparr>) (orders db0)"
    using complete_item_cascade [OF db0_item2] unfolding r
    by (simp add: item1_def item2_def)
  have i1: "findByPk i_id (order_items (snd (complete_item 2 db1))) 2 = Some (item2\<lparr>i_status := I_ready\<rparr>)"
    using complete_item_cascade [OF db1_item2] by blast
  have o1: "orders (snd (complete_item 2 db1)) = orders db1"
    using complete_item_cascade [OF db1_item2] s by blast
  show ?thesis
    unfolding i0 o0 i1 o1
    by (simp add: db0_def update_row_def order1_def order2_def)
qed

section \<open>Discounts\<close>











section \<open>Starting a session\<close>

lemma Session_create_without_id:
  "Session_create generated new_id now None table_id table_number customer_name customer_phone
     hourly_rate created_by = Inl SequelizeValidationError"
  by (simp add: Session_create_def)

text \<open>
  C5, starting a session, for a request that passes validation on a stored table. If
  the table's status is not 'available' the answer is 400 and the store is unchanged, as
  it is to be. On an available table the handler is to create an active session and to
  occupy the table; as written it answers 500 and leaves the store unchanged, because its
  create call passes no session_id and the model requires one before the hook that would
  generate it has run.
\<close>

theorem start_session_spec:
  assumes v: "start_valid req"
    and t: "findByPk t_id (tables d) (sr_table_id req) = Some table"
  shows "start_session generated now user req d =
           (if t_status table \<noteq> T_available then (Response 400 Table_is_not_available None, d)
            else (Response 500 Server_error None, d))"
  using v t by (simp add: start_session_def Let_def Session_create_without_id)

lemma trim_Cy: "trim '' Cy '' = ''Cy''"
  by (simp add: trim_def is_space_def)

theorem start_session_spec_witness:
  "start_session ''SES-20260115-4711'' 77 manager
     \<lparr>sr_table_id = 1, sr_customer_name = '' Cy '', sr_customer_phone = ''1''\<rparr> db0 =
     (Response 400 Table_is_not_available None, db0) \<and>
   start_session ''SES-20260115-4711'' 77 manager
     \<lparr>sr_table_id = 2, sr_customer_name = '' Cy '', sr_customer_phone = ''1''\<rparr> db0 =
     (Response 500 Server_error None, db0) \<and>
   t_status table2 = T_available"
proof -
  have v: "\<And>k. start_valid \<lparr>sr_table_id = k, sr_customer_name = '' Cy '', sr_customer_phone = ''1''\<rparr>"
    by (simp add: start_valid_def trim_Cy) (simp add: trim_def is_space_def)
  have t1: "findByPk t_id (tables db0)
      (sr_table_id \<lparr>sr_table_id = 1, sr_customer_name = '' Cy '', sr_customer_phone = ''1''\<rparr>) = Some table1"
    using db0_table1 by simp
  have t2: "findByPk t_id (tables db0)
      (sr_table_id \<lparr>sr_table_id = 2, sr_customer_name = '' Cy '', sr_customer_phone = ''1''\<rparr>) = Some table2"
    using db0_table2 by simp
  have a: "t_status table1 \<noteq> T_available" "t_status table2 = T_available"
    by (simp_all add: table1_def table2_def)
  show ?thesis
    using start_session_spec [OF v t1, of "''SES-20260115-4711''" 77 manager]
      start_session_spec [OF v t2, of "''SES-20260115-4711''" 77 manager] a
    by simp
qed

section \<open>Creating an order\<close>


lemma price_lines_accept:
  "\<forall>item \<in> set items. \<not> unavailable menu item \<Longrightarrow>
   \<exists>new. price_lines menu items subtotal orderItems =
            Inr (subtotal + sum_list (map (itemTotal menu) items), orderItems @ new) \<and>
          map pi_menu_item_id new = map ol_menu_item_id items \<and>
          map pi_quantity new = map ol_quantity items"
proof (induction items arbitrary: subtotal orderItems)
  case Nil
  then show ?case by simp
next
  case (Cons item rest)
  from Cons.prems obtain menuItem where
    f: "findByPk m_id menu (ol_menu_item_id item) = Some menuItem" and a: "m_is_available menuItem"
    by (auto simp: unavailable_def split: option.splits)
  have i: "m_id menuItem = ol_menu_item_id item"
    using findByPk_Some_iff [OF f] by simp
  let ?p = "\<lparr>pi_menu_item_id = m_id menuItem, pi_name = m_name menuItem,
             pi_price = m_price menuItem, pi_quantity = ol_quantity item,
             pi_special_instructions = ol_special_instructions item\<rparr>"
  from Cons.prems have "\<forall>item \<in> set rest. \<not> unavailable menu item" by simp
  from Cons.IH [OF this, of "subtotal + m_price menuItem * of_int (ol_quantity item)" "orderItems @ [?p]"]
  obtain new where
    n: "price_lines menu rest (subtotal + m_price menuItem * of_int (ol_quantity item)) (orderItems @ [?p]) =
          Inr (subtotal + m_price menuItem * of_int (ol_quantity item) + sum_list (map (itemTotal menu) rest),
               (orderItems @ [?p]) @ new)"
    and m: "map pi_menu_item_id new = map ol_menu_item_id rest"
    and q: "map pi_quantity new = map ol_quantity rest"
    by blast
  have h: "itemTotal menu item = m_price menuItem * of_int (ol_quantity item)"
    using f by (simp add: itemTotal_def)
  show ?case
    apply (rule exI [of _ "?p # new"])
    using f a n m q i
    apply (simp add: Let_def h algebra_simps)
    done
qed

lemma Order_create_without_id:
  "Order_create generated new_id now None table_id table_number customer_name customer_phone
     service_type order_type subtotal tax total' created_by special_instructions =
   Inl SequelizeValidationError"
  by (simp add: Order_create_def)

text \<open>
  A request that passes validation, on a stored table, with every line naming an
  available item: the lines are priced (the subtotal is the sum over the lines of price
  times quantity), and then the create call, which passes no order_id, fails validation.
  The answer is 500 and nothing is stored.
\<close>

lemma create_order_priced_fails:
  assumes v: "order_valid req"
    and t: "findByPk t_id (tables d) (or_table_id req) = Some table"
    and ok: "\<forall>item \<in> set (or_items req). \<not> unavailable (menu_items d) item"
  shows "create_order generated now user req d = (Response 500 Server_error None, d)"
proof -
  from price_lines_accept [OF ok, of 0 "[]"]
  obtain pend where
    p: "price_lines (menu_items d) (or_items req) 0 [] =
          Inr (sum_list (map (itemTotal (menu_items d)) (or_items req)), pend)"
    by auto
  show ?thesis
    using v t p by (simp add: create_order_def Let_def Order_create_without_id)
qed




section \<open>Reservations\<close>

lemma table_type_of_examples:
  "table_type_of ''Snooker Table'' = ''Snooker''"
  "table_type_of ''Pool Table'' = ''Pool''"
  "table_type_of ''PlayStation Station'' = ''PlayStation''"
  "table_type_of ''Restaurant Table'' = ''Restaurant''"
  "table_type_of ''Dining Table'' = ''Dining''"
  by (simp_all add: table_type_of_def)

lemma time_of_examples:
  "time_of ''7:05'' = 425" "time_of ''07:05'' = 425" "time_of ''18:30'' = 1110"
  "time_of ''23:59'' = 1439" "time_of ''0:00'' = 0"
  by (simp_all add: digit_val_def)

lemma Reservation_create_without_id:
  "Reservation_create isEmail generated new_id None customer_name customer_phone customer_email
     table_id table_type reservation_date reservation_time duration party_size special_requests
     sms_notification email_notification created_by = Inl SequelizeValidationError"
  by (simp add: Reservation_create_def)

text \<open>
  C7, creating a reservation. The available tables are the active tables of the requested
  type whose status is 'available'; the conflicts are the reservations in status confirmed
  or arrived for the same type, day and time. If there is no available table, or the
  conflicts are at least as many as the available tables, the answer is 400 and the store
  is unchanged, as it is to be. Otherwise a request that passes validation is to create
  the reservation on the first available table; the handler as written answers 500 and
  stores nothing, because its create call passes no reservation_id and the model requires
  one before the hook that would generate it has run.
\<close>

theorem create_reservation_spec:
  "(let available = filter (\<lambda>t. t_type t = table_type_of (rq_table_type req) \<and>
                                t_status t = T_available \<and> t_is_active t) (tables d);
        conflicts = filter (\<lambda>r. r_table_type r = rq_table_type req \<and>
                                r_reservation_date r = dateonly (rq_reservation_date req) \<and>
                                r_reservation_time r = time_of (rq_reservation_time req) \<and>
                                (r_status r = R_confirmed \<or> r_status r = R_arrived))
                      (reservations d)
    in (available = [] \<or> length conflicts \<ge> length available \<longrightarrow>
          status_code (fst (create_reservation isISO8601 isEmail dateonly generated user req d)) = 400 \<and>
          snd (create_reservation isISO8601 isEmail dateonly generated user req d) = d) \<and>
       (reservation_valid isISO8601 req \<and> available \<noteq> [] \<and> length conflicts < length available \<longrightarrow>
          create_reservation isISO8601 isEmail dateonly generated user req d =
            (Response 500 Server_error None, d)))"
proof -
  have c: "conflictingReservations (rq_table_type req) (dateonly (rq_reservation_date req))
             (time_of (rq_reservation_time req)) d =
           filter (\<lambda>r. r_table_type r = rq_table_type req \<and>
                       r_reservation_date r = dateonly (rq_reservation_date req) \<and>
                       r_reservation_time r = time_of (rq_reservation_time req) \<and>
                       (r_status r = R_confirmed \<or> r_status r = R_arrived))
             (reservations d)"
    by (simp add: conflictingReservations_def)
  have a: "availableTables (rq_table_type req) d =
           filter (\<lambda>t. t_type t = table_type_of (rq_table_type req) \<and>
                       t_status t = T_available \<and> t_is_active t) (tables d)"
    by (simp add: availableTables_def)
  show ?thesis
    unfolding Let_def c [symmetric] a [symmetric]
    by (auto simp: create_reservation_def Let_def Reservation_create_without_id
        split: list.splits)
qed

lemma res_req_valid: "reservation_valid iso_date res_req1" "reservation_valid iso_date res_req3"
  by (simp_all add: reservation_valid_def res_req1_def res_req3_def iso_date_def trim_def
      is_space_def is_digit_def)

theorem create_reservation_spec_witness:
  "status_code (fst (create_reservation iso_date has_at day_of ''RES-20260112-4711'' None res_req2 db0)) = 400 \<and>
   snd (create_reservation iso_date has_at day_of ''RES-20260112-4711'' None res_req2 db0) = db0 \<and>
   status_code (fst (create_reservation iso_date has_at day_of ''RES-20260112-4711'' None res_req3 db2)) = 400 \<and>
   snd (create_reservation iso_date has_at day_of ''RES-20260112-4711'' None res_req3 db2) = db2 \<and>
   create_reservation iso_date has_at day_of ''RES-20260112-4711'' None res_req1 db2 =
     (Response 500 Server_error None, db2) \<and>
   create_reservation iso_date has_at day_of ''RES-20260112-4711'' None res_req1 db0 =
     (Response 500 Server_error None, db0)"
proof -
  have tt: "rq_table_type res_req1 = ''Snooker Table''" "rq_table_type res_req2 = ''Pool Table''"
    "rq_table_type res_req3 = ''Snooker Table''"
    by (simp_all add: res_req1_def res_req2_def res_req3_def)
  have dt: "day_of (rq_reservation_date res_req1) = 15" "day_of (rq_reservation_date res_req3) = 15"
    "time_of (rq_reservation_time res_req1) = 1110" "time_of (rq_reservation_time res_req3) = 425"
    by (simp_all add: res_req1_def res_req3_def day_of_def digit_val_def)
  have av0: "filter (\<lambda>t. t_type t = ''Snooker'' \<and> t_status t = T_available \<and> t_is_active t) (tables db0) = [table2]"
    "filter (\<lambda>t. t_type t = ''Pool'' \<and> t_status t = T_available \<and> t_is_active t) (tables db0) = []"
    by (simp_all add: db0_def table1_def table2_def)
  have av2: "tables db2 = tables db0" "reservations db2 = [reservation1]" "reservations db0 = []"
    by (simp_all add: db2_def db0_def)
  have r: "r_table_type reservation1 = ''Snooker Table''" "r_reservation_date reservation1 = 15"
    "r_reservation_time reservation1 = 425" "r_status reservation1 = R_confirmed"
    by (simp_all add: reservation1_def)
  show ?thesis
    using create_reservation_spec [of res_req2 db0 day_of iso_date has_at "''RES-20260112-4711''" None]
      create_reservation_spec [of res_req3 db2 day_of iso_date has_at "''RES-20260112-4711''" None]
      create_reservation_spec [of res_req1 db2 day_of iso_date has_at "''RES-20260112-4711''" None]
      create_reservation_spec [of res_req1 db0 day_of iso_date has_at "''RES-20260112-4711''" None]
      res_req_valid
    by (simp add: Let_def tt dt table_type_of_examples av0 av2 r)
qed

section \<open>Registration\<close>

text \<open>
  With the aliases enabled the lookup is the disjunction it is written to be, and a second
  registration with an email that a stored user has is answered 400.
\<close>

lemma register_in_aliases_existing_email:
  assumes "u \<in> set (users d)" and "u_email u = rg_email req"
  shows "status_code (fst (register_in True isEmail hash req d)) = 400 \<and>
         snd (register_in True isEmail hash req d) = d"
proof -
  have "find (\<lambda>u. u_email u = rg_email req \<or> u_username u = trim (rg_username req)) (users d) \<noteq> None"
    using assms by (auto simp: find_None_iff)
  then show ?thesis
    by (auto simp: register_in_def existingUser_def Let_def)
qed

lemma register_in_aliases_created:
  assumes "status_code (fst (register_in True isEmail hash req d)) = 201"
  shows "\<exists>user. users (snd (register_in True isEmail hash req d)) = users d @ [user] \<and>
               u_email user = rg_email req"
  using assms
  by (auto simp: register_in_def existingUser_def Let_def split: if_splits option.splits)

lemma register_in_aliases_same_email_twice:
  assumes first: "status_code (fst (register_in True isEmail hash r1 d)) = 201"
    and same: "rg_email r2 = rg_email r1"
  shows "status_code (fst (register_in True isEmail hash r2 (snd (register_in True isEmail hash r1 d)))) = 400 \<and>
         snd (register_in True isEmail hash r2 (snd (register_in True isEmail hash r1 d))) =
           snd (register_in True isEmail hash r1 d)"
proof -
  from register_in_aliases_created [OF first] obtain user where
    u: "users (snd (register_in True isEmail hash r1 d)) = users d @ [user]"
    and e: "u_email user = rg_email r1"
    by blast
  have "user \<in> set (users (snd (register_in True isEmail hash r1 d)))"
    by (simp add: u)
  moreover have "u_email user = rg_email r2"
    by (simp add: e same)
  ultimately show ?thesis
    by (rule register_in_aliases_existing_email)
qed

text \<open>
  C8, registering the same email twice. The second of two register requests with the same
  email is to be answered 400. With the handler as written and Sequelize's defaults every
  register request that passes validation is answered 500 and stores nothing, the first
  included: the lookup of an existing user is refused before any user is read. So the
  second request, too, is answered 500 and not 400.
\<close>

theorem register_same_email_twice:
  assumes v1: "register_valid isEmail r1" and v2: "register_valid isEmail r2"
    and same: "rg_email r2 = rg_email r1"
  shows "register isEmail hash r1 d = (Response 500 Server_error_during_registration None, d) \<and>
         register isEmail hash r2 (snd (register isEmail hash r1 d)) =
           (Response 500 Server_error_during_registration None, d)"
  using v1 v2
  by (simp add: register_def operatorsAliases_default_def register_in_def existingUser_def Let_def)

lemma reg_req_valid: "register_valid has_at reg_req1" "register_valid has_at reg_req2"
proof -
  have t: "trim ''Ann Lee'' = ''Ann Lee''" "trim ''ann'' = ''ann''" "trim ''555-0103'' = ''555-0103''"
    "trim ''Anna Lee'' = ''Anna Lee''" "trim ''anna'' = ''anna''" "trim ''555-0104'' = ''555-0104''"
    by (simp_all add: trim_def is_space_def)
  show "register_valid has_at reg_req1" "register_valid has_at reg_req2"
    by (simp_all add: register_valid_def reg_req1_def reg_req2_def t has_at_def)
qed

theorem register_same_email_twice_witness:
  "rg_email reg_req2 = rg_email reg_req1 \<and> rg_username reg_req2 \<noteq> rg_username reg_req1 \<and>
   register has_at rev reg_req1 db0 = (Response 500 Server_error_during_registration None, db0) \<and>
   register has_at rev reg_req2 (snd (register has_at rev reg_req1 db0)) =
     (Response 500 Server_error_during_registration None, db0)"
proof -
  have same: "rg_email reg_req2 = rg_email reg_req1"
    by (simp add: reg_req1_def reg_req2_def)
  have diff: "rg_username reg_req2 \<noteq> rg_username reg_req1"
    by (simp add: reg_req1_def reg_req2_def)
  show ?thesis
    using register_same_email_twice [OF reg_req_valid same, of rev db0] same diff
    by blast
qed

end
